theory Spec2Isabelle
  imports
    Complex_Main
    "HOL-Library.Product_Lexorder"
    "HOL-Library.List_Lexorder"
    "HOL-Library.Char_ord"
begin

section \<open>Data model\<close>

text \<open>
  The script \<^verbatim>\<open>affordable_housing.py\<close> runs a fixed sequence of pandas operations on
  the table returned by \<^verbatim>\<open>pd.read_csv\<close>. The table is modelled by its column labels, in
  order, and its rows; a row maps a column label to a cell.

  A cell is a missing number (\<open>NaN\<close>), a missing date (\<open>NaT\<close>), a string, a number, an
  infinity, or a midnight timestamp given by year, month and day. Numbers are exact
  rationals: the rounding of the float32 and float64 formats is not modelled.
\<close>

datatype cell = NaN | NaT | Str string | Num rat | PosInf | NegInf | Timestamp int int int

datatype error = KeyError "string list" | ValueError | TypeError | IndexError | Unmodelled

type_synonym row = "string \<rightharpoonup> cell"

record frame =
  columns :: "string list"
  rows :: "row list"

record tables =
  date_stamp :: string
  lahd :: frame
  lahd_projects :: frame
  lahd_projects_no_jobs_column :: frame

definition and_then :: "error + 'a \<Rightarrow> ('a \<Rightarrow> error + 'b) \<Rightarrow> error + 'b" where
  "and_then m f = (case m of Inl e \<Rightarrow> Inl e | Inr x \<Rightarrow> f x)"

fun is_na :: "cell \<Rightarrow> bool" where
  "is_na NaN = True"
| "is_na NaT = True"
| "is_na _ = False"

text \<open>Reading a cell; a row that has no entry for the label reads as missing.\<close>

definition cell_at :: "row \<Rightarrow> string \<Rightarrow> cell" where
  "cell_at r c = (case r c of Some v \<Rightarrow> v | None \<Rightarrow> NaN)"

text \<open>
  \<^verbatim>\<open>df[labels]\<close> raises \<^verbatim>\<open>KeyError\<close>, naming the labels that are not columns.
\<close>

definition require_columns :: "string list \<Rightarrow> frame \<Rightarrow> error + frame" where
  "require_columns cs df =
     (case filter (\<lambda>c. c \<notin> set (columns df)) cs of
        [] \<Rightarrow> Inr df
      | ms \<Rightarrow> Inl (KeyError ms))"

text \<open>
  \<^verbatim>\<open>df[c] = values\<close>: an existing column is overwritten in place, a new one is appended
  as the last column.
\<close>

definition add_column :: "string \<Rightarrow> string list \<Rightarrow> string list" where
  "add_column c cs = (if c \<in> set cs then cs else cs @ [c])"

definition set_cell :: "string \<Rightarrow> (row \<Rightarrow> cell) \<Rightarrow> row \<Rightarrow> row" where
  "set_cell c f r = r(c \<mapsto> f r)"

definition assign :: "string \<Rightarrow> (row \<Rightarrow> cell) \<Rightarrow> frame \<Rightarrow> frame" where
  "assign c f df =
     \<lparr>columns = add_column c (columns df), rows = map (set_cell c f) (rows df)\<rparr>"

text \<open>
  \<^verbatim>\<open>df[labels] = df[labels].apply(f)\<close>, for labels that are columns: every cell of these
  columns is replaced by the value of \<open>f\<close> on it.
\<close>

definition update_row :: "string list \<Rightarrow> (cell \<Rightarrow> cell) \<Rightarrow> row \<Rightarrow> row" where
  "update_row cs f r = (\<lambda>c. if c \<in> set cs then Some (f (cell_at r c)) else r c)"

definition update_cells :: "string list \<Rightarrow> (cell \<Rightarrow> cell) \<Rightarrow> frame \<Rightarrow> frame" where
  "update_cells cs f df = df\<lparr>rows := map (update_row cs f) (rows df)\<rparr>"

section \<open>Parsing of numbers and dates\<close>

definition digit_of :: "char \<Rightarrow> int option" where
  "digit_of c = map_of
     [(CHR ''0'', 0), (CHR ''1'', 1), (CHR ''2'', 2), (CHR ''3'', 3), (CHR ''4'', 4),
      (CHR ''5'', 5), (CHR ''6'', 6), (CHR ''7'', 7), (CHR ''8'', 8), (CHR ''9'', 9)] c"

definition is_digit :: "char \<Rightarrow> bool" where
  "is_digit c = (digit_of c \<noteq> None)"

fun digits_value :: "int \<Rightarrow> string \<Rightarrow> int" where
  "digits_value acc [] = acc"
| "digits_value acc (c # cs) =
     digits_value (10 * acc + (case digit_of c of Some d \<Rightarrow> d | None \<Rightarrow> 0)) cs"

definition is_space :: "char \<Rightarrow> bool" where
  "is_space c = (c \<in> set [CHR '' '', CHR 0x09, CHR 0x0A, CHR 0x0B, CHR 0x0C, CHR 0x0D])"

definition strip :: "string \<Rightarrow> string" where
  "strip s = rev (dropWhile is_space (rev (dropWhile is_space s)))"

definition lower :: "char \<Rightarrow> char" where
  "lower c = (case map_of (zip ''ABCDEFGHIJKLMNOPQRSTUVWXYZ'' ''abcdefghijklmnopqrstuvwxyz'') c of
                Some l \<Rightarrow> l | None \<Rightarrow> c)"

text \<open>
  The exponent part of a number: empty, or \<^verbatim>\<open>e\<close>/\<^verbatim>\<open>E\<close>, an optional sign and at least one
  digit.
\<close>

definition parse_exponent :: "string \<Rightarrow> int option" where
  "parse_exponent s =
     (case s of
        [] \<Rightarrow> Some 0
      | c # t \<Rightarrow>
          if c = CHR ''e'' \<or> c = CHR ''E'' then
            (let (neg, u) = (case t of
                               [] \<Rightarrow> (False, [])
                             | x # v \<Rightarrow> if x = CHR ''-'' then (True, v)
                                        else if x = CHR ''+'' then (False, v)
                                        else (False, t))
             in if u \<noteq> [] \<and> list_all is_digit u
                then Some (if neg then - digits_value 0 u else digits_value 0 u)
                else None)
          else None)"

definition scale10 :: "rat \<Rightarrow> int \<Rightarrow> rat" where
  "scale10 x e = (if 0 \<le> e then x * 10 ^ nat e else x / 10 ^ nat (- e))"

text \<open>
  The text-to-number conversion behind \<^verbatim>\<open>pd.to_numeric\<close>: blanks around the text are
  skipped; then an optional sign, and either the word \<^verbatim>\<open>inf\<close> or \<^verbatim>\<open>infinity\<close> in any
  letter case, or decimal digits with an optional fraction and an optional exponent. Any
  other text does not parse.
\<close>

definition parse_number :: "string \<Rightarrow> cell option" where
  "parse_number s =
     (let t = strip s;
          (neg, u) = (case t of
                        [] \<Rightarrow> (False, [])
                      | x # v \<Rightarrow> if x = CHR ''-'' then (True, v)
                                 else if x = CHR ''+'' then (False, v)
                                 else (False, t))
      in if map lower u = ''inf'' \<or> map lower u = ''infinity''
         then Some (if neg then NegInf else PosInf)
         else
           (let ip = takeWhile is_digit u;
                r1 = dropWhile is_digit u;
                (fp, r2) = (case r1 of
                              [] \<Rightarrow> ([], [])
                            | x # v \<Rightarrow> if x = CHR ''.''
                                       then (takeWhile is_digit v, dropWhile is_digit v)
                                       else ([], r1))
            in if ip = [] \<and> fp = [] then None
               else
                 (case parse_exponent r2 of
                    None \<Rightarrow> None
                  | Some e \<Rightarrow>
                      (let m = of_int (digits_value 0 ip)
                                 + of_int (digits_value 0 fp) / 10 ^ length fp
                       in Some (Num (scale10 (if neg then - m else m) e))))))"

text \<open>
  \<^verbatim>\<open>.replace(',', '', regex=True)\<close> removes every comma of a string cell and leaves the
  other cells as they are.
\<close>

fun strip_commas :: "cell \<Rightarrow> cell" where
  "strip_commas (Str s) = Str (filter (\<lambda>x. x \<noteq> CHR '','') s)"
| "strip_commas c = c"

text \<open>
  \<^verbatim>\<open>pd.to_numeric(..., errors='coerce')\<close> on one cell: a string that does not parse
  becomes \<open>NaN\<close>. The \<^verbatim>\<open>downcast\<close> argument changes the storage type only. (Dates do not
  occur in a column read by \<^verbatim>\<open>read_csv\<close>; they are mapped to \<open>NaN\<close>.)
\<close>

fun to_numeric :: "cell \<Rightarrow> cell" where
  "to_numeric (Str s) = (case parse_number s of Some v \<Rightarrow> v | None \<Rightarrow> NaN)"
| "to_numeric (Num x) = Num x"
| "to_numeric PosInf = PosInf"
| "to_numeric NegInf = NegInf"
| "to_numeric c = NaN"

fun split_on :: "char \<Rightarrow> string \<Rightarrow> string list" where
  "split_on c [] = [[]]"
| "split_on c (x # xs) =
     (if x = c then [] # split_on c xs
      else (case split_on c xs of
              [] \<Rightarrow> [[x]]
            | w # ws \<Rightarrow> (x # w) # ws))"

definition leap_year :: "int \<Rightarrow> bool" where
  "leap_year y = (y mod 4 = 0 \<and> (y mod 100 \<noteq> 0 \<or> y mod 400 = 0))"

definition days_in_month :: "int \<Rightarrow> int \<Rightarrow> int" where
  "days_in_month y m =
     (if m = 2 then (if leap_year y then 29 else 28)
      else if m \<in> set [4, 6, 9, 11] then 30
      else 31)"

text \<open>
  A midnight timestamp has to lie in the range of 64-bit nanosecond timestamps,
  1677-09-22 to 2262-04-11; a date outside it cannot be stored and is coerced to \<open>NaT\<close>.
\<close>

definition in_bounds :: "int \<Rightarrow> int \<Rightarrow> int \<Rightarrow> bool" where
  "in_bounds y m d = ((1677, 9, 22) \<le> (y, m, d) \<and> (y, m, d) \<le> (2262, 4, 11))"

definition valid_date :: "int \<Rightarrow> int \<Rightarrow> int \<Rightarrow> bool" where
  "valid_date y m d =
     (1 \<le> y \<and> 1 \<le> m \<and> m \<le> 12 \<and> 1 \<le> d \<and> d \<le> days_in_month y m \<and> in_bounds y m d)"

text \<open>
  The directives of the formats: \<^verbatim>\<open>%m\<close> is one or two digits, 1 to 12; \<^verbatim>\<open>%d\<close> is one or
  two digits, 1 to 31, or a blank and a digit 1 to 9; \<^verbatim>\<open>%Y\<close> is exactly four digits.
\<close>

definition parse_field :: "int \<Rightarrow> int \<Rightarrow> string \<Rightarrow> int option" where
  "parse_field lo hi s =
     (if (length s = 1 \<or> length s = 2) \<and> list_all is_digit s
         \<and> lo \<le> digits_value 0 s \<and> digits_value 0 s \<le> hi
      then Some (digits_value 0 s) else None)"

definition parse_day :: "string \<Rightarrow> int option" where
  "parse_day s =
     (case s of
        [a, b] \<Rightarrow> if a = CHR '' '' then parse_field 1 9 [b] else parse_field 1 31 s
      | _ \<Rightarrow> parse_field 1 31 s)"

definition parse_year :: "string \<Rightarrow> int option" where
  "parse_year s =
     (if length s = 4 \<and> list_all is_digit s then Some (digits_value 0 s) else None)"

definition strptime_mdY :: "string \<Rightarrow> (int \<times> int \<times> int) option" where
  "strptime_mdY s =
     (case split_on (CHR ''/'') s of
        [ms, ds, ys] \<Rightarrow>
          (case (parse_field 1 12 ms, parse_day ds, parse_year ys) of
             (Some m, Some d, Some y) \<Rightarrow> if valid_date y m d then Some (y, m, d) else None
           | _ \<Rightarrow> None)
      | _ \<Rightarrow> None)"

text \<open>
  \<^verbatim>\<open>pd.to_datetime(..., format="%m/%d/%Y", errors='coerce')\<close> on one cell. A missing cell
  and a number are \<open>NaT\<close>: the text of a number has no \<^verbatim>\<open>/\<close>.
\<close>

fun to_datetime_mdY :: "cell \<Rightarrow> cell" where
  "to_datetime_mdY (Str s) =
     (case strptime_mdY s of Some (y, m, d) \<Rightarrow> Timestamp y m d | None \<Rightarrow> NaT)"
| "to_datetime_mdY (Timestamp y m d) = Timestamp y m d"
| "to_datetime_mdY c = NaT"

text \<open>
  \<^verbatim>\<open>pd.to_datetime(..., format="%Y", errors='coerce')\<close> on one cell: four digits give
  the first of January of that year; the text \<^verbatim>\<open>NaT\<close>, as any other text, gives \<open>NaT\<close>.
\<close>

fun to_datetime_Y :: "cell \<Rightarrow> cell" where
  "to_datetime_Y (Str s) =
     (case parse_year s of
        Some y \<Rightarrow> if valid_date y 1 1 then Timestamp y 1 1 else NaT
      | None \<Rightarrow> NaT)"
| "to_datetime_Y (Timestamp y m d) = Timestamp y m d"
| "to_datetime_Y c = NaT"

definition digit_char :: "int \<Rightarrow> char" where
  "digit_char n = ''0123456789'' ! nat (n mod 10)"

definition isoformat :: "int \<Rightarrow> int \<Rightarrow> int \<Rightarrow> string" where
  "isoformat y m d =
     [digit_char (y div 1000), digit_char (y div 100), digit_char (y div 10), digit_char y]
     @ ''-'' @ [digit_char (m div 10), digit_char m]
     @ ''-'' @ [digit_char (d div 10), digit_char d]"

text \<open>
  \<^verbatim>\<open>.astype(str)\<close> on the datetime column \<^verbatim>\<open>DATE FUNDED\<close>. After \<^verbatim>\<open>to_datetime\<close> the
  column holds timestamps and \<open>NaT\<close> only; a timestamp prints as \<^verbatim>\<open>YYYY-MM-DD\<close> and \<open>NaT\<close>
  prints as the text \<^verbatim>\<open>NaT\<close>.
\<close>

fun astype_str :: "cell \<Rightarrow> string" where
  "astype_str (Timestamp y m d) = isoformat y m d"
| "astype_str c = ''NaT''"

section \<open>The pipeline, lines 13 to 45: the filtered, retyped site table\<close>

text \<open>
  Line 13, \<^verbatim>\<open>lahd['DATE STAMP'][0][:10]\<close>: the column has to exist, the table needs a row
  with label 0, and the value has to be a string. A missing value in a column of strings is
  a Python float (\<^verbatim>\<open>TypeError\<close>); a value of a numeric column is a numpy scalar
  (\<^verbatim>\<open>IndexError\<close>).
\<close>

fun is_str :: "cell \<Rightarrow> bool" where
  "is_str (Str s) = True"
| "is_str c = False"

definition date_stamp_of :: "frame \<Rightarrow> error + string" where
  "date_stamp_of df =
     (if ''DATE STAMP'' \<notin> set (columns df) then Inl (KeyError [''DATE STAMP''])
      else
        (case rows df of
           [] \<Rightarrow> Inl (KeyError [''0''])
         | r # rs \<Rightarrow>
             (case cell_at r ''DATE STAMP'' of
                Str s \<Rightarrow> Inr (take 10 s)
              | _ \<Rightarrow> if list_ex (\<lambda>q. is_str (cell_at q ''DATE STAMP'')) rs
                     then Inl TypeError else Inl IndexError)))"

text \<open>
  Lines 17 and 18, \<^verbatim>\<open>lahd.loc[lahd[c] != v, :]\<close>: the rows whose cell differs from the
  string are kept; a missing cell differs from every string.
\<close>

definition drop_rows_equal :: "string \<Rightarrow> string \<Rightarrow> frame \<Rightarrow> error + frame" where
  "drop_rows_equal c v df =
     and_then (require_columns [c] df)
       (\<lambda>df. Inr (df\<lparr>rows := filter (\<lambda>r. cell_at r c \<noteq> Str v) (rows df)\<rparr>))"

definition row_filter :: "frame \<Rightarrow> error + frame" where
  "row_filter df =
     and_then (drop_rows_equal ''CONSTRUCTION TYPE'' ''ACQUISITION ONLY'' df)
       (drop_rows_equal ''HOUSING TYPE'' ''AT-RISK'')"

text \<open>
  Lines 21 to 23, \<^verbatim>\<open>lahd.rename(columns={...}, inplace=True)\<close>: \<^verbatim>\<open>rename\<close> is called
  with its default \<^verbatim>\<open>errors='ignore'\<close>, so a label that is not a column is skipped. The
  two renamings do not interfere, and are applied one after the other. When a new label is
  already a column the table gets two columns of one name; that case is outside this model
  (\<open>Unmodelled\<close>).
\<close>

definition rename_row :: "string \<Rightarrow> string \<Rightarrow> row \<Rightarrow> row" where
  "rename_row old new r = (r(old := None))(new := r old)"

definition rename_column :: "string \<Rightarrow> string \<Rightarrow> frame \<Rightarrow> frame" where
  "rename_column old new df =
     (if old \<in> set (columns df)
      then \<lparr>columns = map (\<lambda>c. if c = old then new else c) (columns df),
            rows = map (rename_row old new) (rows df)\<rparr>
      else df)"

definition rename :: "frame \<Rightarrow> error + frame" where
  "rename df =
     (let df' = rename_column ''SITE #'' ''SITE NUMBER''
                  (rename_column ''TDC'' ''TOTAL DEVELOPMENT COST'' df)
      in if distinct (columns df') then Inr df' else Inl Unmodelled)"

definition numeric_columns :: "string list" where
  "numeric_columns =
     [''LAHD FUNDED'', ''LEVERAGE'', ''TAX EXEMPT CONDUIT BOND'', ''TOTAL DEVELOPMENT COST'']"

definition categorical_columns :: "string list" where
  "categorical_columns =
     [''APN'', ''PROJECT NUMBER'', ''DEVELOPMENT STAGE'', ''CONSTRUCTION TYPE'',
      ''SITE NUMBER'', ''HOUSING TYPE'', ''SUPPORTIVE HOUSING'', ''IN-SERVICE DATE'']"

text \<open>Lines 28 to 33: commas are removed, then the four columns are made numeric.\<close>

definition coerce_numeric :: "frame \<Rightarrow> error + frame" where
  "coerce_numeric df =
     and_then (require_columns numeric_columns df)
       (\<lambda>df. Inr (update_cells numeric_columns to_numeric
                    (update_cells numeric_columns strip_commas df)))"

text \<open>Lines 34 and 35: \<^verbatim>\<open>JOBS\<close> is made numeric, without the removal of commas.\<close>

definition coerce_jobs :: "frame \<Rightarrow> error + frame" where
  "coerce_jobs df =
     and_then (require_columns [''JOBS''] df)
       (\<lambda>df. Inr (update_cells [''JOBS''] to_numeric df))"

text \<open>
  Line 41, \<^verbatim>\<open>.astype('category')\<close>: the values stay as they are; the eight columns have
  to exist.
\<close>

definition to_category :: "frame \<Rightarrow> error + frame" where
  "to_category df = require_columns categorical_columns df"

text \<open>Lines 44 and 45.\<close>

definition parse_date_funded :: "frame \<Rightarrow> error + frame" where
  "parse_date_funded df =
     and_then (require_columns [''DATE FUNDED''] df)
       (\<lambda>df. Inr (update_cells [''DATE FUNDED''] to_datetime_mdY df))"

definition clean :: "frame \<Rightarrow> error + frame" where
  "clean df =
     and_then (row_filter df) (\<lambda>d1.
     and_then (rename d1) (\<lambda>d2.
     and_then (coerce_numeric d2) (\<lambda>d3.
     and_then (coerce_jobs d3) (\<lambda>d4.
     and_then (to_category d4) parse_date_funded))))"

section \<open>Lines 49 to 80: the project table\<close>

text \<open>
  The order of the values of a categorical column: numbers before strings, each kind in
  ascending order, missing values last.
\<close>

fun cell_key :: "cell \<Rightarrow> nat \<times> rat \<times> string \<times> int \<times> int \<times> int" where
  "cell_key NegInf = (0, 0, [], 0, 0, 0)"
| "cell_key (Num x) = (1, x, [], 0, 0, 0)"
| "cell_key PosInf = (2, 0, [], 0, 0, 0)"
| "cell_key (Str s) = (3, 0, s, 0, 0, 0)"
| "cell_key (Timestamp y m d) = (4, 0, [], y, m, d)"
| "cell_key NaN = (5, 0, [], 0, 0, 0)"
| "cell_key NaT = (5, 0, [], 0, 0, 0)"

text \<open>
  The categories of a column made categorical by \<^verbatim>\<open>.astype('category')\<close>: its distinct
  values that are not missing, in ascending order.
\<close>

definition categories :: "cell list \<Rightarrow> cell list" where
  "categories vs = sort_key cell_key (remdups (filter (\<lambda>v. \<not> is_na v) vs))"

definition project_number :: "row \<Rightarrow> cell" where
  "project_number r = cell_at r ''PROJECT NUMBER''"

text \<open>
  Line 49, \<^verbatim>\<open>lahd.groupby('PROJECT NUMBER')['PROJECT NUMBER'].count()\<close>: one count for each
  category, in the order of the categories; rows with a missing key belong to no group.
\<close>

definition project_count :: "frame \<Rightarrow> nat list" where
  "project_count df =
     (let vs = map project_number (rows df)
      in map (\<lambda>k. length (filter (\<lambda>v. v = k) vs)) (categories vs))"

text \<open>
  Lines 53 and 54. \<^verbatim>\<open>drop_duplicates\<close> keeps the first row of each project number, the
  missing project number being one more value; \<^verbatim>\<open>sort_values\<close> orders the rows by
  project number, a missing one last.
\<close>

definition duplicate_key :: "row \<Rightarrow> cell" where
  "duplicate_key r = (if is_na (project_number r) then NaN else project_number r)"

fun drop_duplicates :: "cell list \<Rightarrow> row list \<Rightarrow> row list" where
  "drop_duplicates seen [] = []"
| "drop_duplicates seen (r # rs) =
     (if duplicate_key r \<in> set seen then drop_duplicates seen rs
      else r # drop_duplicates (duplicate_key r # seen) rs)"

definition sort_values :: "row list \<Rightarrow> row list" where
  "sort_values rs = sort_key (\<lambda>r. cell_key (project_number r)) rs"

text \<open>
  Line 57, \<^verbatim>\<open>lahd_projects['NUMBER OF SITES'] = np.array(project_count)\<close>: the array is
  attached by position, and its length has to be the number of rows (\<^verbatim>\<open>ValueError\<close>).
\<close>

definition number_of_sites :: "nat list \<Rightarrow> frame \<Rightarrow> error + frame" where
  "number_of_sites counts df =
     (if length counts = length (rows df)
      then Inr \<lparr>columns = add_column ''NUMBER OF SITES'' (columns df),
                rows = map2 (\<lambda>r n. set_cell ''NUMBER OF SITES'' (\<lambda>r. Num (of_nat n)) r)
                         (rows df) counts\<rparr>
      else Inl ValueError)"

text \<open>
  Lines 58 to 64. \<^verbatim>\<open>d[:n]\<close> is applied to the strings made by \<^verbatim>\<open>astype(str)\<close> only.
\<close>

fun slice :: "nat \<Rightarrow> cell \<Rightarrow> cell" where
  "slice n (Str s) = Str (take n s)"
| "slice n c = c"

definition funded_dates :: "frame \<Rightarrow> frame" where
  "funded_dates df =
     (let d1 = assign ''DATE FUNDED'' (\<lambda>r. Str (astype_str (cell_at r ''DATE FUNDED''))) df;
          d2 = assign ''YEAR FUNDED'' (\<lambda>r. slice 4 (cell_at r ''DATE FUNDED'')) d1;
          d3 = assign ''DATE FUNDED'' (\<lambda>r. slice 10 (cell_at r ''DATE FUNDED'')) d2
      in assign ''YEAR FUNDED'' (\<lambda>r. to_datetime_Y (cell_at r ''YEAR FUNDED'')) d3)"

text \<open>
  Lines 65 to 67, \<^verbatim>\<open>tdc / ptu\<close>, on one row. The division of floats raises nothing: a
  missing operand gives \<open>NaN\<close>, a zero divisor gives an infinity of the sign of the
  dividend, and \<open>NaN\<close> for the dividend zero (a zero divisor is taken as positive zero).
  \<^verbatim>\<open>PROJECT TOTAL UNITS\<close> comes from \<^verbatim>\<open>read_csv\<close> as it is: when a value of it is a
  string and the dividend is present, the division raises \<^verbatim>\<open>TypeError\<close>.
\<close>

fun is_inf :: "cell \<Rightarrow> bool" where
  "is_inf PosInf = True"
| "is_inf NegInf = True"
| "is_inf c = False"

fun true_divide :: "cell \<Rightarrow> cell \<Rightarrow> error + cell" where
  "true_divide NaN d = Inr NaN"
| "true_divide NaT d = Inr NaN"
| "true_divide (Num a) (Num b) =
     Inr (if b \<noteq> 0 then Num (a / b)
          else if 0 < a then PosInf else if a < 0 then NegInf else NaN)"
| "true_divide (Num a) d =
     (if is_na d then Inr NaN else if is_inf d then Inr (Num 0) else Inl TypeError)"
| "true_divide PosInf (Num b) = Inr (if 0 \<le> b then PosInf else NegInf)"
| "true_divide NegInf (Num b) = Inr (if 0 \<le> b then NegInf else PosInf)"
| "true_divide n d =
     (if is_na d \<or> (is_inf n \<and> is_inf d) then Inr NaN else Inl TypeError)"

fun map_rows :: "(row \<Rightarrow> error + row) \<Rightarrow> row list \<Rightarrow> error + row list" where
  "map_rows f [] = Inr []"
| "map_rows f (r # rs) =
     (case f r of
        Inl e \<Rightarrow> Inl e
      | Inr r' \<Rightarrow> (case map_rows f rs of Inl e \<Rightarrow> Inl e | Inr rs' \<Rightarrow> Inr (r' # rs')))"

definition cost_row :: "row \<Rightarrow> error + row" where
  "cost_row r =
     (case true_divide (cell_at r ''TOTAL DEVELOPMENT COST'') (cell_at r ''PROJECT TOTAL UNITS'') of
        Inl e \<Rightarrow> Inl e
      | Inr v \<Rightarrow> Inr (set_cell ''COST PER HOUSING UNIT'' (\<lambda>r. v) r))"

definition cost_per_housing_unit :: "frame \<Rightarrow> error + frame" where
  "cost_per_housing_unit df =
     and_then (require_columns [''TOTAL DEVELOPMENT COST''] df) (\<lambda>df.
     and_then (require_columns [''PROJECT TOTAL UNITS''] df) (\<lambda>df.
     and_then (map_rows cost_row (rows df)) (\<lambda>rs.
       Inr \<lparr>columns = add_column ''COST PER HOUSING UNIT'' (columns df), rows = rs\<rparr>)))"

text \<open>
  \<^verbatim>\<open>df.drop(labels, axis='columns')\<close> raises \<^verbatim>\<open>KeyError\<close> for a label that is not a
  column.
\<close>

definition drop_cells :: "string list \<Rightarrow> row \<Rightarrow> row" where
  "drop_cells cs r = (\<lambda>c. if c \<in> set cs then None else r c)"

definition drop_columns :: "string list \<Rightarrow> frame \<Rightarrow> error + frame" where
  "drop_columns cs df =
     and_then (require_columns cs df)
       (\<lambda>df. Inr \<lparr>columns = filter (\<lambda>c. c \<notin> set cs) (columns df),
                  rows = map (drop_cells cs) (rows df)\<rparr>)"

definition site_columns :: "string list" where
  "site_columns =
     [''APN'', ''NAME'', ''SITE ADDRESS'', ''SITE NUMBER'', ''SITE COMMUNITY'', ''SITE UNITS'',
      ''SH UNITS PER SITE'', ''IN-SERVICE DATE'', ''PHOTO'', ''PROJECT SUMMARY URL'',
      ''CONTRACT NUMBERS'', ''DATE STAMP'', ''SITE LONGITUDE'', ''SITE LATITUDE'',
      ''GPS_COORDS ON MAP'', ''DEVELOPER'', ''MANAGEMENT COMPANY'', ''CONTACT PHONE'']"

text \<open>Lines 79 and 80: the column at position 3 is dropped, whatever its label.\<close>

definition drop_column_at :: "nat \<Rightarrow> frame \<Rightarrow> error + frame" where
  "drop_column_at i df =
     (if i < length (columns df) then drop_columns [columns df ! i] df else Inl IndexError)"

definition projects :: "frame \<Rightarrow> error + frame" where
  "projects df =
     and_then (require_columns [''PROJECT NUMBER''] df) (\<lambda>df.
     and_then (number_of_sites (project_count df)
                 (df\<lparr>rows := sort_values (drop_duplicates [] (rows df))\<rparr>)) (\<lambda>p1.
     and_then (cost_per_housing_unit (funded_dates p1)) (\<lambda>p2.
     and_then (drop_columns site_columns p2) (drop_column_at 3))))"

section \<open>Lines 83 to 89: the two final tables\<close>

definition complete :: "string list \<Rightarrow> row \<Rightarrow> bool" where
  "complete cs r = (\<forall>c \<in> set cs. \<not> is_na (cell_at r c))"

definition dropna :: "frame \<Rightarrow> frame" where
  "dropna df = df\<lparr>rows := filter (complete (columns df)) (rows df)\<rparr>"

text \<open>
  The table of the sites (\<open>clean\<close>), the project table before the rows with missing values
  are removed (\<open>projects\<close>), and the whole run.
\<close>

definition pipeline :: "frame \<Rightarrow> error + tables" where
  "pipeline df =
     and_then (date_stamp_of df) (\<lambda>stamp.
     and_then (clean df) (\<lambda>sites.
     and_then (projects sites) (\<lambda>p.
     and_then (drop_columns [''JOBS''] p) (\<lambda>q.
       Inr \<lparr>date_stamp = stamp, lahd = sites,
            lahd_projects = dropna p, lahd_projects_no_jobs_column = dropna q\<rparr>))))"

section \<open>Closed forms of the stages\<close>

text \<open>
  The following definitions only name what the stages compute, for the statements and
  proofs below: the rows kept by lines 17 and 18, the labels and rows after the renaming,
  and the effect of lines 21 to 45 on one row.
\<close>

definition keep_row :: "row \<Rightarrow> bool" where
  "keep_row r =
     (cell_at r ''CONSTRUCTION TYPE'' \<noteq> Str ''ACQUISITION ONLY''
      \<and> cell_at r ''HOUSING TYPE'' \<noteq> Str ''AT-RISK'')"

definition rename_labels :: "string list \<Rightarrow> string list" where
  "rename_labels cs =
     map (\<lambda>c. if c = ''SITE #'' then ''SITE NUMBER'' else c)
       (map (\<lambda>c. if c = ''TDC'' then ''TOTAL DEVELOPMENT COST'' else c) cs)"

definition renamed :: "string list \<Rightarrow> row \<Rightarrow> row" where
  "renamed cs r =
     (let r1 = (if ''TDC'' \<in> set cs then rename_row ''TDC'' ''TOTAL DEVELOPMENT COST'' r else r)
      in if ''SITE #'' \<in> set cs then rename_row ''SITE #'' ''SITE NUMBER'' r1 else r1)"

definition clean_row :: "string list \<Rightarrow> row \<Rightarrow> row" where
  "clean_row cs r =
     update_row [''DATE FUNDED''] to_datetime_mdY
       (update_row [''JOBS''] to_numeric
          (update_row numeric_columns to_numeric
             (update_row numeric_columns strip_commas (renamed cs r))))"

definition clean_schema :: "string list \<Rightarrow> bool" where
  "clean_schema cs =
     (''CONSTRUCTION TYPE'' \<in> set cs \<and> ''HOUSING TYPE'' \<in> set cs
      \<and> distinct (rename_labels cs)
      \<and> list_all (\<lambda>c. c \<in> set (rename_labels cs))
           (numeric_columns @ [''JOBS''] @ categorical_columns @ [''DATE FUNDED'']))"

text \<open>
  The same for lines 49 to 80: the number of sites of the project of a row, the effect of
  lines 57 to 67 and of lines 70 to 80 on one row, and the columns of the project table.
\<close>

definition site_count :: "row list \<Rightarrow> row \<Rightarrow> nat" where
  "site_count rs r = length (filter (\<lambda>q. project_number q = project_number r) rs)"

definition dates_row :: "row \<Rightarrow> row" where
  "dates_row r =
     set_cell ''YEAR FUNDED'' (\<lambda>r. to_datetime_Y (cell_at r ''YEAR FUNDED''))
       (set_cell ''DATE FUNDED'' (\<lambda>r. slice 10 (cell_at r ''DATE FUNDED''))
          (set_cell ''YEAR FUNDED'' (\<lambda>r. slice 4 (cell_at r ''DATE FUNDED''))
             (set_cell ''DATE FUNDED'' (\<lambda>r. Str (astype_str (cell_at r ''DATE FUNDED''))) r)))"

definition cost_quotient :: "cell \<Rightarrow> cell \<Rightarrow> cell" where
  "cost_quotient n d = (case true_divide n d of Inr v \<Rightarrow> v | Inl e \<Rightarrow> NaN)"

definition divides :: "row \<Rightarrow> bool" where
  "divides r =
     (\<not> isl (true_divide (cell_at r ''TOTAL DEVELOPMENT COST'') (cell_at r ''PROJECT TOTAL UNITS'')))"

definition derived_row :: "row list \<Rightarrow> row \<Rightarrow> row" where
  "derived_row rs r =
     set_cell ''COST PER HOUSING UNIT''
       (\<lambda>r. cost_quotient (cell_at r ''TOTAL DEVELOPMENT COST'') (cell_at r ''PROJECT TOTAL UNITS''))
       (dates_row (set_cell ''NUMBER OF SITES'' (\<lambda>r. Num (of_nat (site_count rs r))) r))"

definition derived_columns :: "string list \<Rightarrow> string list" where
  "derived_columns cs =
     add_column ''COST PER HOUSING UNIT''
       (add_column ''YEAR FUNDED'' (add_column ''DATE FUNDED'' (add_column ''NUMBER OF SITES'' cs)))"

definition pruned_columns :: "string list \<Rightarrow> string list" where
  "pruned_columns cs = filter (\<lambda>c. c \<notin> set site_columns) (derived_columns cs)"

definition project_columns :: "string list \<Rightarrow> string list" where
  "project_columns cs = filter (\<lambda>c. c \<noteq> pruned_columns cs ! 3) (pruned_columns cs)"

definition project_row :: "string list \<Rightarrow> row list \<Rightarrow> row \<Rightarrow> row" where
  "project_row cs rs r =
     drop_cells [pruned_columns cs ! 3] (drop_cells site_columns (derived_row rs r))"

definition projects_schema :: "string list \<Rightarrow> bool" where
  "projects_schema cs =
     (''PROJECT NUMBER'' \<in> set cs
      \<and> ''TOTAL DEVELOPMENT COST'' \<in> set cs
      \<and> ''PROJECT TOTAL UNITS'' \<in> set cs
      \<and> list_all (\<lambda>c. c \<in> set (derived_columns cs)) site_columns
      \<and> 3 < length (pruned_columns cs))"

text \<open>
  The three tables in closed form, and the condition under which the run raises nothing.
\<close>

definition site_table :: "frame \<Rightarrow> frame" where
  "site_table df =
     \<lparr>columns = rename_labels (columns df),
      rows = map (clean_row (columns df)) (filter keep_row (rows df))\<rparr>"

definition project_table :: "frame \<Rightarrow> frame" where
  "project_table df =
     \<lparr>columns = project_columns (columns df),
      rows = map (project_row (columns df) (rows df))
               (sort_values (drop_duplicates [] (rows df)))\<rparr>"

definition without_jobs :: "frame \<Rightarrow> frame" where
  "without_jobs df =
     \<lparr>columns = filter (\<lambda>c. c \<notin> set [''JOBS'']) (columns df),
      rows = map (drop_cells [''JOBS'']) (rows df)\<rparr>"

definition runs :: "frame \<Rightarrow> bool" where
  "runs df =
     (\<not> isl (date_stamp_of df)
      \<and> clean_schema (columns df)
      \<and> projects_schema (rename_labels (columns df))
      \<and> list_all (\<lambda>r. \<not> is_na (project_number r)) (rows (site_table df))
      \<and> list_all divides (drop_duplicates [] (rows (site_table df)))
      \<and> ''JOBS'' \<in> set (project_columns (rename_labels (columns df))))"

section \<open>A run on a small table\<close>

text \<open>
  Seven site rows under the column labels of the published dataset. The project \<^verbatim>\<open>P2\<close>
  has two sites; \<^verbatim>\<open>P1\<close> has no housing unit; \<^verbatim>\<open>P3\<close> and \<^verbatim>\<open>P4\<close> are excluded by their
  construction and housing type; \<^verbatim>\<open>P5\<close> has a funding date and a cost that do not parse;
  \<^verbatim>\<open>P6\<close> has no jobs figure.
\<close>

definition published_columns :: "string list" where
  "published_columns =
     [''APN'', ''PROJECT NUMBER'', ''NAME'', ''DEVELOPMENT STAGE'', ''CONSTRUCTION TYPE'',
      ''SITE ADDRESS'', ''SITE COUNCIL DISTRICT'', ''SITE #'', ''SITE COMMUNITY'',
      ''SITE UNITS'', ''PROJECT TOTAL UNITS'', ''HOUSING TYPE'', ''SUPPORTIVE HOUSING'',
      ''SH UNITS PER SITE'', ''DATE FUNDED'', ''LAHD FUNDED'', ''LEVERAGE'',
      ''TAX EXEMPT CONDUIT BOND'', ''TDC'', ''IN-SERVICE DATE'', ''DEVELOPER'',
      ''MANAGEMENT COMPANY'', ''CONTACT PHONE'', ''PHOTO'', ''JOBS'', ''PROJECT SUMMARY URL'',
      ''CONTRACT NUMBERS'', ''DATE STAMP'', ''SITE LONGITUDE'', ''SITE LATITUDE'',
      ''GPS_COORDS ON MAP'']"

definition site ::
  "string \<Rightarrow> cell \<Rightarrow> string \<Rightarrow> string \<Rightarrow> cell \<Rightarrow> cell \<Rightarrow> cell \<Rightarrow> cell \<Rightarrow> row" where
  "site pn sn ct ht units funded tdc jobs =
     map_of (zip published_columns
       [Str ''5139-004-011'', Str pn, Str ''HOUSING'', Str ''In-Service'', Str ct,
        Str ''1 MAIN ST'', Num 14, sn, Str ''DOWNTOWN'',
        Num 20, units, Str ht, Str ''No'',
        Num 0, funded, Str ''1,000,000'', Str ''2,500,000'',
        Num 0, tdc, Str ''2012'', Str ''A DEVELOPER'',
        Str ''A COMPANY'', Str ''(213) 555-0100'', Str ''click here'', jobs, Str ''click here'',
        Str ''C-100'', Str ''04/01/2024 12:00:00 AM'', Num (- 118), Num 34,
        Str ''POINT (-118 34)''])"

definition site_a :: row where
  "site_a = site ''P2'' (Num 1) ''NEW CONSTRUCTION'' ''FAMILY'' (Num 40)
              (Str ''03/15/2010'') (Str ''1,234,500'') (Num 12)"

definition site_b :: row where
  "site_b = site ''P1'' (Num 1) ''REHAB'' ''SENIORS'' (Num 0)
              (Str ''12/01/2011'') (Str ''500,000'') (Num 3)"

definition site_c :: row where
  "site_c = site ''P2'' (Num 2) ''NEW CONSTRUCTION'' ''FAMILY'' (Num 40)
              (Str ''03/15/2010'') (Str ''1,234,500'') (Num 12)"

definition site_d :: row where
  "site_d = site ''P3'' (Num 1) ''ACQUISITION ONLY'' ''FAMILY'' (Num 8)
              (Str ''01/20/2012'') (Str ''900,000'') (Num 1)"

definition site_e :: row where
  "site_e = site ''P4'' (Num 1) ''REHAB'' ''AT-RISK'' (Num 8)
              (Str ''01/20/2012'') (Str ''900,000'') (Num 1)"

definition site_f :: row where
  "site_f = site ''P5'' (Num 1) ''REHAB'' ''FAMILY'' (Num 5)
              (Str ''13/01/2012'') (Str ''N/A'') NaN"

definition site_g :: row where
  "site_g = site ''P6'' (Num 1) ''REHAB'' ''FAMILY'' (Num 20)
              (Str ''07/04/2015'') (Str ''2,000,000'') NaN"

definition example :: frame where
  "example =
     \<lparr>columns = published_columns,
      rows = [site_a, site_b, site_c, site_d, site_e, site_f, site_g]\<rparr>"

text \<open>The rows of the small table after lines 21 to 45, and after lines 49 to 80.\<close>

definition cleaned :: "row \<Rightarrow> row" where
  "cleaned = clean_row published_columns"

definition projected :: "row \<Rightarrow> row" where
  "projected =
     project_row (rename_labels published_columns)
       (map cleaned [site_a, site_b, site_c, site_f, site_g])"

definition final_columns :: "string list" where
  "final_columns =
     [''PROJECT NUMBER'', ''DEVELOPMENT STAGE'', ''CONSTRUCTION TYPE'', ''PROJECT TOTAL UNITS'',
      ''HOUSING TYPE'', ''SUPPORTIVE HOUSING'', ''DATE FUNDED'', ''LAHD FUNDED'', ''LEVERAGE'',
      ''TAX EXEMPT CONDUIT BOND'', ''TOTAL DEVELOPMENT COST'', ''JOBS'', ''NUMBER OF SITES'',
      ''YEAR FUNDED'', ''COST PER HOUSING UNIT'']"

definition example_tables :: tables where
  "example_tables =
     \<lparr>date_stamp = ''04/01/2024'',
      lahd = \<lparr>columns = rename_labels published_columns,
              rows = map cleaned [site_a, site_b, site_c, site_f, site_g]\<rparr>,
      lahd_projects =
        \<lparr>columns = final_columns,
         rows = map projected [cleaned site_b, cleaned site_a]\<rparr>,
      lahd_projects_no_jobs_column =
        \<lparr>columns = filter (\<lambda>c. c \<noteq> ''JOBS'') final_columns,
         rows = map (drop_cells [''JOBS''] \<circ> projected)
                  [cleaned site_b, cleaned site_a, cleaned site_g]\<rparr>\<rparr>"

section \<open>Basic facts\<close>

lemma and_then_Inr [simp]: "and_then (Inr x) f = f x"
  by (simp add: and_then_def)

lemma and_then_Inl [simp]: "and_then (Inl e) f = Inl e"
  by (simp add: and_then_def)

lemma and_then_eq_Inr: "and_then m f = Inr y \<longleftrightarrow> (\<exists>x. m = Inr x \<and> f x = Inr y)"
  by (cases m) simp_all

lemma require_columns_eq_Inr:
  "require_columns cs df = Inr d \<longleftrightarrow> (set cs \<subseteq> set (columns df) \<and> d = df)"
proof -
  have "filter (\<lambda>c. c \<notin> set (columns df)) cs = [] \<longleftrightarrow> set cs \<subseteq> set (columns df)"
    by (auto simp: filter_empty_conv)
  then show ?thesis
    by (auto simp: require_columns_def split: list.splits)
qed

lemma require_columns_ok: "set cs \<subseteq> set (columns df) \<Longrightarrow> require_columns cs df = Inr df"
  by (simp add: require_columns_eq_Inr)

lemma set_cell_apply: "set_cell c f r c' = (if c' = c then Some (f r) else r c')"
  by (simp add: set_cell_def)

lemma update_row_apply:
  "update_row cs f r c = (if c \<in> set cs then Some (f (cell_at r c)) else r c)"
  by (simp add: update_row_def)

lemma rename_row_apply:
  "rename_row old new r c = (if c = new then r old else if c = old then None else r c)"
  by (simp add: rename_row_def)

lemma drop_cells_apply: "drop_cells cs r c = (if c \<in> set cs then None else r c)"
  by (simp add: drop_cells_def)

lemma cell_at_set_cell: "cell_at (set_cell c f r) c' = (if c' = c then f r else cell_at r c')"
  by (simp add: cell_at_def set_cell_apply)

lemma cell_at_update_row:
  "cell_at (update_row cs f r) c = (if c \<in> set cs then f (cell_at r c) else cell_at r c)"
  by (simp add: cell_at_def update_row_apply)

lemma cell_at_rename_row:
  "cell_at (rename_row old new r) c =
     (if c = new then cell_at r old else if c = old then NaN else cell_at r c)"
  by (simp add: cell_at_def rename_row_apply)

lemma cell_at_drop_cells:
  "cell_at (drop_cells cs r) c = (if c \<in> set cs then NaN else cell_at r c)"
  by (simp add: cell_at_def drop_cells_apply)

section \<open>The site table in closed form\<close>

lemma row_filter_eq_Inr:
  "row_filter df = Inr d \<longleftrightarrow>
     ''CONSTRUCTION TYPE'' \<in> set (columns df) \<and> ''HOUSING TYPE'' \<in> set (columns df)
     \<and> d = df\<lparr>rows := filter keep_row (rows df)\<rparr>"
proof -
  have "filter (\<lambda>r. cell_at r ''HOUSING TYPE'' \<noteq> Str ''AT-RISK'')
          (filter (\<lambda>r. cell_at r ''CONSTRUCTION TYPE'' \<noteq> Str ''ACQUISITION ONLY'') rs)
        = filter keep_row rs" for rs
    by (induction rs) (simp_all add: keep_row_def)
  then show ?thesis
    by (auto simp: row_filter_def drop_rows_equal_def and_then_eq_Inr require_columns_eq_Inr
        simp del: filter_filter)
qed

lemma columns_rename_column:
  "columns (rename_column old new df) = map (\<lambda>c. if c = old then new else c) (columns df)"
  by (auto simp: rename_column_def intro!: map_idI [symmetric])

lemma rows_rename_column:
  "rows (rename_column old new df) =
     map (\<lambda>r. if old \<in> set (columns df) then rename_row old new r else r) (rows df)"
  by (simp add: rename_column_def)

lemma rename_eq_Inr:
  "rename df = Inr d \<longleftrightarrow>
     distinct (rename_labels (columns df))
     \<and> d = \<lparr>columns = rename_labels (columns df), rows = map (renamed (columns df)) (rows df)\<rparr>"
proof -
  have tdc: "(''SITE #'' \<in> (\<lambda>c. if c = ''TDC'' then ''TOTAL DEVELOPMENT COST'' else c) ` set (columns df))
       = (''SITE #'' \<in> set (columns df))"
    by auto
  have "rename_column ''SITE #'' ''SITE NUMBER''
          (rename_column ''TDC'' ''TOTAL DEVELOPMENT COST'' df)
        = \<lparr>columns = rename_labels (columns df), rows = map (renamed (columns df)) (rows df)\<rparr>"
    by (rule frame.equality)
       (simp_all add: columns_rename_column rows_rename_column rename_labels_def renamed_def
          tdc Let_def)
  then show ?thesis
    by (auto simp: rename_def Let_def)
qed

lemma clean_eq_Inr:
  "clean df = Inr d \<longleftrightarrow>
     clean_schema (columns df)
     \<and> d = site_table df"
  by (auto simp: site_table_def clean_def and_then_eq_Inr row_filter_eq_Inr rename_eq_Inr coerce_numeric_def
      coerce_jobs_def to_category_def parse_date_funded_def require_columns_eq_Inr
      update_cells_def clean_schema_def clean_row_def list_all_iff comp_def)

section \<open>Duplicates, categories and the order of the rows\<close>

lemma drop_duplicates_subset: "set (drop_duplicates seen rs) \<subseteq> set rs"
  by (induction rs arbitrary: seen) auto

lemma drop_duplicates_keys:
  "duplicate_key ` set (drop_duplicates seen rs) = duplicate_key ` set rs - set seen"
  by (induction rs arbitrary: seen) auto

lemma drop_duplicates_distinct: "distinct (map duplicate_key (drop_duplicates seen rs))"
  by (induction rs arbitrary: seen) (auto simp: drop_duplicates_keys)

lemma drop_duplicates_first:
  "r \<in> set (drop_duplicates seen rs) \<Longrightarrow>
     duplicate_key r \<notin> set seen \<and> find (\<lambda>q. duplicate_key q = duplicate_key r) rs = Some r"
proof (induction rs arbitrary: seen)
  case Nil
  then show ?case by simp
next
  case (Cons a rs)
  show ?case
  proof (cases "duplicate_key a \<in> set seen")
    case True
    with Cons.prems have "r \<in> set (drop_duplicates seen rs)" by simp
    from Cons.IH [OF this] True show ?thesis by auto
  next
    case False
    show ?thesis
    proof (cases "r = a")
      case True
      with False show ?thesis by simp
    next
      case ne: False
      with False Cons.prems have "r \<in> set (drop_duplicates (duplicate_key a # seen) rs)"
        by simp
      from Cons.IH [OF this] show ?thesis by auto
    qed
  qed
qed

lemma cell_key_inj: "\<not> is_na a \<Longrightarrow> \<not> is_na b \<Longrightarrow> cell_key a = cell_key b \<Longrightarrow> a = b"
  by (cases a; cases b) simp_all

lemma cell_key_inj_on: "\<forall>x \<in> A. \<not> is_na x \<Longrightarrow> inj_on cell_key A"
  by (auto simp: inj_on_def intro: cell_key_inj)

lemma categories_set: "set (categories vs) = {v \<in> set vs. \<not> is_na v}"
  by (auto simp: categories_def)

lemma categories_distinct: "distinct (categories vs)"
  by (simp add: categories_def)

lemma categories_sorted: "sorted (map cell_key (categories vs))"
  by (simp add: categories_def)

lemma duplicate_key_image:
  "duplicate_key ` set rs =
     {v \<in> project_number ` set rs. \<not> is_na v}
     \<union> (if \<exists>r \<in> set rs. is_na (project_number r) then {NaN} else {})"
  by (auto simp: duplicate_key_def image_iff split: if_splits)

lemma length_drop_duplicates:
  "length (drop_duplicates [] rs) = card (duplicate_key ` set rs)"
proof -
  have "length (drop_duplicates [] rs) = length (map duplicate_key (drop_duplicates [] rs))"
    by simp
  also have "\<dots> = card (set (map duplicate_key (drop_duplicates [] rs)))"
    by (rule distinct_card [symmetric]) (rule drop_duplicates_distinct)
  also have "\<dots> = card (duplicate_key ` set rs)"
    by (simp add: drop_duplicates_keys)
  finally show ?thesis .
qed

lemma length_categories:
  "length (categories (map project_number rs))
     = card {v \<in> project_number ` set rs. \<not> is_na v}"
proof -
  have "length (categories (map project_number rs))
          = card (set (categories (map project_number rs)))"
    by (rule distinct_card [symmetric]) (rule categories_distinct)
  then show ?thesis by (simp add: categories_set)
qed

text \<open>
  The counts and the deduplicated rows have the same length exactly when no row has a
  missing project number.
\<close>

lemma lengths_agree_iff:
  "length (categories (map project_number rs)) = length (drop_duplicates [] rs)
     \<longleftrightarrow> (\<forall>r \<in> set rs. \<not> is_na (project_number r))"
proof -
  let ?A = "{v \<in> project_number ` set rs. \<not> is_na v}"
  have fin: "finite ?A" by simp
  have notin: "NaN \<notin> ?A" by auto
  show ?thesis
  proof (cases "\<exists>r \<in> set rs. is_na (project_number r)")
    case True
    then have "duplicate_key ` set rs = insert NaN ?A"
      by (simp add: duplicate_key_image)
    then have "card (duplicate_key ` set rs) = Suc (card ?A)"
      using fin notin by simp
    with True show ?thesis
      by (auto simp: length_drop_duplicates length_categories)
  next
    case False
    then have "duplicate_key ` set rs = ?A"
      by (simp add: duplicate_key_image)
    with False show ?thesis
      by (auto simp: length_drop_duplicates length_categories)
  qed
qed

text \<open>
  Without a missing project number, the project numbers of the deduplicated and sorted
  rows are the categories, in their order: attaching the counts by position attaches to
  each row the count of its own project.
\<close>

lemma sorted_keys_are_categories:
  assumes "\<forall>r \<in> set rs. \<not> is_na (project_number r)"
  shows "map project_number (sort_values (drop_duplicates [] rs))
           = categories (map project_number rs)"
proof -
  let ?ds = "sort_values (drop_duplicates [] rs)"
  let ?cs = "categories (map project_number rs)"
  have dk: "duplicate_key r = project_number r" if "r \<in> set rs" for r
    using assms that by (simp add: duplicate_key_def)
  have sub: "set (drop_duplicates [] rs) \<subseteq> set rs"
    by (rule drop_duplicates_subset)
  have keys_eq: "map project_number (drop_duplicates [] rs)
                   = map duplicate_key (drop_duplicates [] rs)"
    using sub dk by (auto intro!: map_cong [OF refl])
  have set_ds: "set (map project_number ?ds) = project_number ` set rs"
  proof -
    have "set (map project_number ?ds) = set (map project_number (drop_duplicates [] rs))"
      by (simp add: sort_values_def)
    also have "\<dots> = duplicate_key ` set rs"
      by (simp only: keys_eq) (simp add: drop_duplicates_keys)
    also have "\<dots> = project_number ` set rs"
      using dk by (auto simp: image_iff)
    finally show ?thesis .
  qed
  have set_cs: "set ?cs = project_number ` set rs"
    using assms by (auto simp: categories_set)
  have nna_ds: "\<forall>x \<in> set (map project_number ?ds). \<not> is_na x"
    using assms by (simp only: set_ds) auto
  have nna_cs: "\<forall>x \<in> set ?cs. \<not> is_na x"
    by (simp add: categories_set)
  have dist_ds: "distinct (map project_number ?ds)"
  proof -
    have "distinct (map project_number (drop_duplicates [] rs))"
      by (simp only: keys_eq drop_duplicates_distinct)
    then have "distinct (drop_duplicates [] rs)
               \<and> inj_on project_number (set (drop_duplicates [] rs))"
      by (simp add: distinct_map)
    then show ?thesis
      by (simp add: distinct_map sort_values_def)
  qed
  have "map cell_key (map project_number ?ds) = map cell_key ?cs"
  proof (rule sorted_distinct_set_unique)
    show "sorted (map cell_key (map project_number ?ds))"
      using sorted_sort_key [of "\<lambda>r. cell_key (project_number r)" "drop_duplicates [] rs"]
      by (simp add: sort_values_def comp_def)
    show "distinct (map cell_key (map project_number ?ds))"
      using dist_ds cell_key_inj_on [OF nna_ds] by (simp only: distinct_map)
    show "sorted (map cell_key ?cs)"
      by (rule categories_sorted)
    show "distinct (map cell_key ?cs)"
      using categories_distinct cell_key_inj_on [OF nna_cs] by (simp only: distinct_map)
    show "set (map cell_key (map project_number ?ds)) = set (map cell_key ?cs)"
      using set_ds set_cs by (simp only: set_map)
  qed
  moreover have "inj_on cell_key (set (map project_number ?ds) \<union> set ?cs)"
    using nna_ds nna_cs by (intro cell_key_inj_on) blast
  ultimately show ?thesis
    by (simp only: inj_on_map_eq_map)
qed

lemma map2_counts:
  "map2 f xs (map g (map h xs)) = map (\<lambda>x. f x (g (h x))) xs"
  by (induction xs) simp_all

section \<open>The project table in closed form\<close>

lemma add_column_set [simp]: "set (add_column c cs) = insert c (set cs)"
  by (auto simp: add_column_def)

lemma add_column_idem: "c \<in> set cs \<Longrightarrow> add_column c cs = cs"
  by (simp add: add_column_def)

lemma funded_dates_closed:
  "funded_dates df =
     \<lparr>columns = add_column ''YEAR FUNDED'' (add_column ''DATE FUNDED'' (columns df)),
      rows = map dates_row (rows df)\<rparr>"
  by (simp add: funded_dates_def assign_def Let_def add_column_idem dates_row_def comp_def)

lemma cost_row_eq_Inr:
  "cost_row r = Inr r' \<longleftrightarrow>
     divides r
     \<and> r' = set_cell ''COST PER HOUSING UNIT''
              (\<lambda>r. cost_quotient (cell_at r ''TOTAL DEVELOPMENT COST'')
                             (cell_at r ''PROJECT TOTAL UNITS'')) r"
  by (auto simp: cost_row_def divides_def cost_quotient_def set_cell_def split: sum.splits)

lemma map_cost_row_Inr:
  "map_rows cost_row rs = Inr rs' \<Longrightarrow>
     (\<forall>r \<in> set rs. divides r)
     \<and> rs' = map (set_cell ''COST PER HOUSING UNIT''
                    (\<lambda>r. cost_quotient (cell_at r ''TOTAL DEVELOPMENT COST'')
                                   (cell_at r ''PROJECT TOTAL UNITS''))) rs"
  by (induction rs arbitrary: rs') (auto simp: cost_row_eq_Inr split: sum.splits)

lemma map_cost_row_ok:
  "\<forall>r \<in> set rs. divides r \<Longrightarrow>
     map_rows cost_row rs
       = Inr (map (set_cell ''COST PER HOUSING UNIT''
                    (\<lambda>r. cost_quotient (cell_at r ''TOTAL DEVELOPMENT COST'')
                                   (cell_at r ''PROJECT TOTAL UNITS''))) rs)"
proof (induction rs)
  case Nil
  then show ?case by simp
next
  case (Cons r rs)
  then have "divides r" by simp
  then obtain r' where "cost_row r = Inr r'"
    and "r' = set_cell ''COST PER HOUSING UNIT''
               (\<lambda>r. cost_quotient (cell_at r ''TOTAL DEVELOPMENT COST'')
                              (cell_at r ''PROJECT TOTAL UNITS'')) r"
    by (simp add: cost_row_eq_Inr)
  with Cons show ?case by simp
qed

lemma map_cost_row_eq_Inr:
  "map_rows cost_row rs = Inr rs' \<longleftrightarrow>
     (\<forall>r \<in> set rs. divides r)
     \<and> rs' = map (set_cell ''COST PER HOUSING UNIT''
                    (\<lambda>r. cost_quotient (cell_at r ''TOTAL DEVELOPMENT COST'')
                                   (cell_at r ''PROJECT TOTAL UNITS''))) rs"
  using map_cost_row_Inr [of rs rs'] map_cost_row_ok [of rs] by auto

lemma cost_per_housing_unit_eq_Inr:
  "cost_per_housing_unit df = Inr d \<longleftrightarrow>
     ''TOTAL DEVELOPMENT COST'' \<in> set (columns df)
     \<and> ''PROJECT TOTAL UNITS'' \<in> set (columns df)
     \<and> (\<forall>r \<in> set (rows df). divides r)
     \<and> d = \<lparr>columns = add_column ''COST PER HOUSING UNIT'' (columns df),
            rows = map (set_cell ''COST PER HOUSING UNIT''
                          (\<lambda>r. cost_quotient (cell_at r ''TOTAL DEVELOPMENT COST'')
                                         (cell_at r ''PROJECT TOTAL UNITS''))) (rows df)\<rparr>"
  by (auto simp: cost_per_housing_unit_def and_then_eq_Inr require_columns_eq_Inr
      map_cost_row_eq_Inr)

lemma drop_columns_eq_Inr:
  "drop_columns cs df = Inr d \<longleftrightarrow>
     set cs \<subseteq> set (columns df)
     \<and> d = \<lparr>columns = filter (\<lambda>c. c \<notin> set cs) (columns df),
            rows = map (drop_cells cs) (rows df)\<rparr>"
  by (auto simp: drop_columns_def and_then_eq_Inr require_columns_eq_Inr)

lemma drop_column_at_eq_Inr:
  "drop_column_at i df = Inr d \<longleftrightarrow>
     i < length (columns df)
     \<and> d = \<lparr>columns = filter (\<lambda>c. c \<noteq> columns df ! i) (columns df),
            rows = map (drop_cells [columns df ! i]) (rows df)\<rparr>"
  by (auto simp: drop_column_at_def drop_columns_eq_Inr)

lemma count_map:
  "length (filter (\<lambda>v. v = k) (map f xs)) = length (filter (\<lambda>q. f q = k) xs)"
  by (induction xs) auto

lemma number_of_sites_eq_Inr:
  "number_of_sites (project_count df) (df\<lparr>rows := sort_values (drop_duplicates [] (rows df))\<rparr>)
       = Inr d \<longleftrightarrow>
     (\<forall>r \<in> set (rows df). \<not> is_na (project_number r))
     \<and> d = \<lparr>columns = add_column ''NUMBER OF SITES'' (columns df),
            rows = map (\<lambda>r. set_cell ''NUMBER OF SITES''
                              (\<lambda>r. Num (of_nat (site_count (rows df) r))) r)
                     (sort_values (drop_duplicates [] (rows df)))\<rparr>"
proof -
  let ?rs = "rows df"
  let ?ds = "sort_values (drop_duplicates [] ?rs)"
  have len: "length (project_count df) = length ?ds
               \<longleftrightarrow> (\<forall>r \<in> set ?rs. \<not> is_na (project_number r))"
    using lengths_agree_iff [of ?rs] by (simp add: project_count_def Let_def sort_values_def)
  have rows_eq:
    "map2 (\<lambda>r n. set_cell ''NUMBER OF SITES'' (\<lambda>r. Num (of_nat n)) r) ?ds (project_count df)
       = map (\<lambda>r. set_cell ''NUMBER OF SITES'' (\<lambda>r. Num (of_nat (site_count ?rs r))) r) ?ds"
    if "\<forall>r \<in> set ?rs. \<not> is_na (project_number r)"
  proof -
    have pc: "project_count df
                = map (\<lambda>k. length (filter (\<lambda>v. v = k) (map project_number ?rs)))
                    (map project_number ?ds)"
      by (simp add: project_count_def Let_def sorted_keys_are_categories [OF that])
    show ?thesis
      by (simp only: pc map2_counts count_map) (simp add: site_count_def set_cell_def)
  qed
  show ?thesis
    using len rows_eq by (auto simp: number_of_sites_def)
qed

lemma divides_derived:
  "divides (dates_row (set_cell ''NUMBER OF SITES'' f r)) = divides r"
  by (simp add: divides_def dates_row_def cell_at_set_cell)

lemma projects_eq_Inr:
  "projects df = Inr d \<longleftrightarrow>
     projects_schema (columns df)
     \<and> (\<forall>r \<in> set (rows df). \<not> is_na (project_number r))
     \<and> (\<forall>r \<in> set (drop_duplicates [] (rows df)). divides r)
     \<and> d = project_table df"
proof -
  let ?cs = "columns df"
  let ?ds = "sort_values (drop_duplicates [] (rows df))"
  let ?c1 = "add_column ''NUMBER OF SITES'' ?cs"
  let ?r1 = "map (\<lambda>r. set_cell ''NUMBER OF SITES''
                         (\<lambda>r. Num (of_nat (site_count (rows df) r))) r) ?ds"
  let ?c2 = "add_column ''YEAR FUNDED'' (add_column ''DATE FUNDED'' ?c1)"
  let ?r3 = "map (derived_row (rows df)) ?ds"
  have step1: "projects df = Inr d \<longleftrightarrow>
      ''PROJECT NUMBER'' \<in> set ?cs
      \<and> (\<forall>r \<in> set (rows df). \<not> is_na (project_number r))
      \<and> (\<exists>p2. cost_per_housing_unit (funded_dates \<lparr>columns = ?c1, rows = ?r1\<rparr>) = Inr p2
             \<and> (\<exists>p3. drop_columns site_columns p2 = Inr p3 \<and> drop_column_at 3 p3 = Inr d))"
    by (simp add: projects_def and_then_eq_Inr require_columns_eq_Inr number_of_sites_eq_Inr
)
  have div: "(\<forall>r \<in> set (map dates_row ?r1). divides r)
               \<longleftrightarrow> (\<forall>r \<in> set (drop_duplicates [] (rows df)). divides r)"
    by (simp add: divides_derived sort_values_def)
  have tdc: "''TOTAL DEVELOPMENT COST'' \<in> set ?c2 \<longleftrightarrow> ''TOTAL DEVELOPMENT COST'' \<in> set ?cs"
    by simp
  have ptu: "''PROJECT TOTAL UNITS'' \<in> set ?c2 \<longleftrightarrow> ''PROJECT TOTAL UNITS'' \<in> set ?cs"
    by simp
  have r3: "map (set_cell ''COST PER HOUSING UNIT''
                  (\<lambda>r. cost_quotient (cell_at r ''TOTAL DEVELOPMENT COST'')
                                      (cell_at r ''PROJECT TOTAL UNITS'')))
              (map dates_row ?r1) = ?r3"
    by (simp add: derived_row_def comp_def)
  have step2: "cost_per_housing_unit (funded_dates \<lparr>columns = ?c1, rows = ?r1\<rparr>) = Inr p2
      \<longleftrightarrow> ''TOTAL DEVELOPMENT COST'' \<in> set ?cs \<and> ''PROJECT TOTAL UNITS'' \<in> set ?cs
          \<and> (\<forall>r \<in> set (drop_duplicates [] (rows df)). divides r)
          \<and> p2 = \<lparr>columns = derived_columns ?cs, rows = ?r3\<rparr>" for p2
    unfolding funded_dates_closed cost_per_housing_unit_eq_Inr frame.simps div tdc ptu r3
    by (simp add: derived_columns_def)
  have step3: "drop_columns site_columns \<lparr>columns = derived_columns ?cs, rows = ?r3\<rparr> = Inr p3
      \<longleftrightarrow> list_all (\<lambda>c. c \<in> set (derived_columns ?cs)) site_columns
          \<and> p3 = \<lparr>columns = pruned_columns ?cs,
                   rows = map (drop_cells site_columns) ?r3\<rparr>" for p3
    unfolding drop_columns_eq_Inr frame.simps
    by (auto simp: list_all_iff pruned_columns_def simp del: map_map)
  have step4: "drop_column_at 3 \<lparr>columns = pruned_columns ?cs,
                                  rows = map (drop_cells site_columns) ?r3\<rparr> = Inr d
      \<longleftrightarrow> 3 < length (pruned_columns ?cs)
          \<and> d = \<lparr>columns = project_columns ?cs,
                  rows = map (project_row ?cs (rows df)) ?ds\<rparr>"
    unfolding drop_column_at_eq_Inr frame.simps
    by (simp add: project_columns_def project_row_def [abs_def] comp_def)
  show ?thesis
    unfolding step1 step2 project_table_def
    by (auto simp: step3 step4 projects_schema_def simp del: map_map)
qed


lemma pipeline_eq_Inr:
  "pipeline df = Inr out \<longleftrightarrow>
     runs df
     \<and> out = \<lparr>date_stamp = projr (date_stamp_of df),
              lahd = site_table df,
              lahd_projects = dropna (project_table (site_table df)),
              lahd_projects_no_jobs_column =
                dropna (without_jobs (project_table (site_table df)))\<rparr>"
proof -
  have cols: "columns (site_table df) = rename_labels (columns df)"
    by (simp add: site_table_def)
  have pcols: "columns (project_table d) = project_columns (columns d)" for d
    by (simp add: project_table_def)
  have stamp: "(\<exists>s. date_stamp_of df = Inr s \<and> P s)
                 \<longleftrightarrow> \<not> isl (date_stamp_of df) \<and> P (projr (date_stamp_of df))" for P
    by (cases "date_stamp_of df") auto
  show ?thesis
    unfolding pipeline_def and_then_eq_Inr clean_eq_Inr projects_eq_Inr drop_columns_eq_Inr
    by (auto simp: stamp cols pcols runs_def without_jobs_def list_all_iff)
qed

lemma pipeline_runs: "runs df \<Longrightarrow> \<not> isl (pipeline df)"
  using pipeline_eq_Inr [of df] by (cases "pipeline df") auto

section \<open>The run on the small table, evaluated\<close>

lemma site_map:
  "site pn sn ct ht units funded tdc jobs =
     [''GPS_COORDS ON MAP'' \<mapsto> Str ''POINT (-118 34)'', ''SITE LATITUDE'' \<mapsto> Num 34,
      ''SITE LONGITUDE'' \<mapsto> Num (- 118), ''DATE STAMP'' \<mapsto> Str ''04/01/2024 12:00:00 AM'',
      ''CONTRACT NUMBERS'' \<mapsto> Str ''C-100'', ''PROJECT SUMMARY URL'' \<mapsto> Str ''click here'',
      ''JOBS'' \<mapsto> jobs, ''PHOTO'' \<mapsto> Str ''click here'',
      ''CONTACT PHONE'' \<mapsto> Str ''(213) 555-0100'', ''MANAGEMENT COMPANY'' \<mapsto> Str ''A COMPANY'',
      ''DEVELOPER'' \<mapsto> Str ''A DEVELOPER'', ''IN-SERVICE DATE'' \<mapsto> Str ''2012'',
      ''TDC'' \<mapsto> tdc, ''TAX EXEMPT CONDUIT BOND'' \<mapsto> Num 0,
      ''LEVERAGE'' \<mapsto> Str ''2,500,000'', ''LAHD FUNDED'' \<mapsto> Str ''1,000,000'',
      ''DATE FUNDED'' \<mapsto> funded, ''SH UNITS PER SITE'' \<mapsto> Num 0,
      ''SUPPORTIVE HOUSING'' \<mapsto> Str ''No'', ''HOUSING TYPE'' \<mapsto> Str ht,
      ''PROJECT TOTAL UNITS'' \<mapsto> units, ''SITE UNITS'' \<mapsto> Num 20,
      ''SITE COMMUNITY'' \<mapsto> Str ''DOWNTOWN'', ''SITE #'' \<mapsto> sn,
      ''SITE COUNCIL DISTRICT'' \<mapsto> Num 14, ''SITE ADDRESS'' \<mapsto> Str ''1 MAIN ST'',
      ''CONSTRUCTION TYPE'' \<mapsto> Str ct, ''DEVELOPMENT STAGE'' \<mapsto> Str ''In-Service'',
      ''NAME'' \<mapsto> Str ''HOUSING'', ''PROJECT NUMBER'' \<mapsto> Str pn,
      ''APN'' \<mapsto> Str ''5139-004-011'']"
  by (simp add: site_def published_columns_def)

lemmas site_defs = site_a_def site_b_def site_c_def site_d_def site_e_def site_f_def site_g_def

lemma example_labels:
  "rename_labels published_columns =
     [''APN'', ''PROJECT NUMBER'', ''NAME'', ''DEVELOPMENT STAGE'', ''CONSTRUCTION TYPE'',
      ''SITE ADDRESS'', ''SITE COUNCIL DISTRICT'', ''SITE NUMBER'', ''SITE COMMUNITY'',
      ''SITE UNITS'', ''PROJECT TOTAL UNITS'', ''HOUSING TYPE'', ''SUPPORTIVE HOUSING'',
      ''SH UNITS PER SITE'', ''DATE FUNDED'', ''LAHD FUNDED'', ''LEVERAGE'',
      ''TAX EXEMPT CONDUIT BOND'', ''TOTAL DEVELOPMENT COST'', ''IN-SERVICE DATE'', ''DEVELOPER'',
      ''MANAGEMENT COMPANY'', ''CONTACT PHONE'', ''PHOTO'', ''JOBS'', ''PROJECT SUMMARY URL'',
      ''CONTRACT NUMBERS'', ''DATE STAMP'', ''SITE LONGITUDE'', ''SITE LATITUDE'',
      ''GPS_COORDS ON MAP'']"
  by code_simp

lemma example_clean_schema: "clean_schema published_columns"
  by code_simp

lemma example_projects_schema: "projects_schema (rename_labels published_columns)"
  by code_simp

lemma example_project_columns:
  "project_columns (rename_labels published_columns) = final_columns"
  by code_simp

lemma example_dropped_column:
  "pruned_columns (rename_labels published_columns) ! 3 = ''SITE COUNCIL DISTRICT''"
  by code_simp

lemma example_renamed:
  "renamed published_columns r =
     rename_row ''SITE #'' ''SITE NUMBER'' (rename_row ''TDC'' ''TOTAL DEVELOPMENT COST'' r)"
proof -
  have "''TDC'' \<in> set published_columns" and "''SITE #'' \<in> set published_columns"
    by code_simp+
  then show ?thesis by (simp add: renamed_def)
qed

lemma parsed_numbers:
  "parse_number ''1234500'' = Some (Num 1234500)"
  "parse_number ''500000'' = Some (Num 500000)"
  "parse_number ''2000000'' = Some (Num 2000000)"
  "parse_number ''1000000'' = Some (Num 1000000)"
  "parse_number ''2500000'' = Some (Num 2500000)"
  "parse_number ''N/A'' = None"
  by code_simp+

lemma parsed_dates:
  "strptime_mdY ''03/15/2010'' = Some (2010, 3, 15)"
  "strptime_mdY ''12/01/2011'' = Some (2011, 12, 1)"
  "strptime_mdY ''07/04/2015'' = Some (2015, 7, 4)"
  "strptime_mdY ''13/01/2012'' = None"
  by code_simp+

lemma printed_dates:
  "isoformat 2010 3 15 = ''2010-03-15''"
  "isoformat 2011 12 1 = ''2011-12-01''"
  "isoformat 2015 7 4 = ''2015-07-04''"
  by code_simp+

lemma parsed_years:
  "parse_year ''2010'' = Some 2010"
  "parse_year ''2011'' = Some 2011"
  "parse_year ''2015'' = Some 2015"
  "parse_year ''NaT'' = None"
  "valid_date 2010 1 1"
  "valid_date 2011 1 1"
  "valid_date 2015 1 1"
  by code_simp+

lemma cell_at_upd: "cell_at (r(k \<mapsto> v)) c = (if c = k then v else cell_at r c)"
  by (simp add: cell_at_def)

lemma cell_at_empty: "cell_at Map.empty c = NaN"
  by (simp add: cell_at_def)

lemmas cell_lookups =
  cell_at_set_cell cell_at_update_row cell_at_rename_row cell_at_drop_cells

lemmas site_cells = site_defs site_map cell_at_upd cell_at_empty

lemmas example_values =
  parsed_numbers parsed_dates printed_dates parsed_years numeric_columns_def

text \<open>The cells of a row after lines 21 to 45.\<close>

lemma cleaned_cell:
  "cell_at (cleaned r) c =
     (if c = ''DATE FUNDED'' then to_datetime_mdY (cell_at r ''DATE FUNDED'')
      else if c = ''JOBS'' then to_numeric (cell_at r ''JOBS'')
      else if c = ''TOTAL DEVELOPMENT COST'' then to_numeric (strip_commas (cell_at r ''TDC''))
      else if c \<in> set [''LAHD FUNDED'', ''LEVERAGE'', ''TAX EXEMPT CONDUIT BOND'']
        then to_numeric (strip_commas (cell_at r c))
      else if c = ''SITE NUMBER'' then cell_at r ''SITE #''
      else if c = ''TDC'' \<or> c = ''SITE #'' then NaN
      else cell_at r c)"
  by (simp add: cleaned_def clean_row_def example_renamed cell_lookups numeric_columns_def)

lemma example_keys:
  "project_number (cleaned site_a) = Str ''P2''"
  "project_number (cleaned site_b) = Str ''P1''"
  "project_number (cleaned site_c) = Str ''P2''"
  "project_number (cleaned site_f) = Str ''P5''"
  "project_number (cleaned site_g) = Str ''P6''"
  by (simp_all add: project_number_def cleaned_cell site_cells)

lemma example_kept:
  "filter keep_row (rows example) = [site_a, site_b, site_c, site_f, site_g]"
  by (simp add: example_def keep_row_def cell_at_def site_defs site_map)

lemma example_site_table: "site_table example = lahd example_tables"
  by (simp add: site_table_def example_kept example_tables_def cleaned_def)
     (simp add: example_def)

lemma example_dedup:
  "drop_duplicates [] (map cleaned [site_a, site_b, site_c, site_f, site_g])
     = [cleaned site_a, cleaned site_b, cleaned site_f, cleaned site_g]"
  by (simp add: duplicate_key_def example_keys)

lemma example_sorted:
  "sort_values [cleaned site_a, cleaned site_b, cleaned site_f, cleaned site_g]
     = [cleaned site_b, cleaned site_a, cleaned site_f, cleaned site_g]"
  by (simp add: sort_values_def example_keys)

lemma example_costs:
  "cell_at (cleaned site_a) ''TOTAL DEVELOPMENT COST'' = Num 1234500"
  "cell_at (cleaned site_b) ''TOTAL DEVELOPMENT COST'' = Num 500000"
  "cell_at (cleaned site_f) ''TOTAL DEVELOPMENT COST'' = NaN"
  "cell_at (cleaned site_g) ''TOTAL DEVELOPMENT COST'' = Num 2000000"
  by (simp_all add: cleaned_cell site_cells example_values)

lemma example_units:
  "cell_at (cleaned site_a) ''PROJECT TOTAL UNITS'' = Num 40"
  "cell_at (cleaned site_b) ''PROJECT TOTAL UNITS'' = Num 0"
  "cell_at (cleaned site_f) ''PROJECT TOTAL UNITS'' = Num 5"
  "cell_at (cleaned site_g) ''PROJECT TOTAL UNITS'' = Num 20"
  by (simp_all add: cleaned_cell site_cells)

lemma example_divides:
  "list_all divides [cleaned site_a, cleaned site_b, cleaned site_f, cleaned site_g]"
  by (simp add: divides_def example_costs example_units)

lemma example_date_stamp: "date_stamp_of example = Inr ''04/01/2024''"
  by (simp add: date_stamp_of_def example_def cell_at_def site_defs site_map)
     (simp add: published_columns_def)

lemma example_runs: "runs example"
proof -
  have cols: "columns example = published_columns"
    by (simp add: example_def)
  have rws: "rows (site_table example) = map cleaned [site_a, site_b, site_c, site_f, site_g]"
    by (simp add: example_site_table example_tables_def)
  have jobs: "''JOBS'' \<in> set final_columns"
    by code_simp
  show ?thesis
    unfolding runs_def cols rws example_dedup example_project_columns
    using example_clean_schema example_projects_schema example_divides jobs
    by (simp add: example_date_stamp example_keys)
qed

lemma example_project_table:
  "project_table (site_table example)
     = \<lparr>columns = final_columns,
        rows = map projected [cleaned site_b, cleaned site_a, cleaned site_f, cleaned site_g]\<rparr>"
proof -
  have "columns (lahd example_tables) = rename_labels published_columns"
    and "rows (lahd example_tables) = map cleaned [site_a, site_b, site_c, site_f, site_g]"
    by (simp_all add: example_tables_def)
  then show ?thesis
    unfolding project_table_def example_site_table
    by (simp only: example_project_columns example_dedup example_sorted projected_def)
qed

text \<open>The cells of a row of the project table.\<close>

lemma projected_cell:
  "cell_at (projected r) c =
     (if c = ''SITE COUNCIL DISTRICT'' \<or> c \<in> set site_columns then NaN
      else if c = ''COST PER HOUSING UNIT''
        then cost_quotient (cell_at r ''TOTAL DEVELOPMENT COST'') (cell_at r ''PROJECT TOTAL UNITS'')
      else if c = ''YEAR FUNDED''
        then to_datetime_Y (slice 4 (Str (astype_str (cell_at r ''DATE FUNDED''))))
      else if c = ''DATE FUNDED'' then slice 10 (Str (astype_str (cell_at r ''DATE FUNDED'')))
      else if c = ''NUMBER OF SITES''
        then Num (of_nat (site_count (map cleaned [site_a, site_b, site_c, site_f, site_g]) r))
      else cell_at r c)"
  by (simp add: projected_def project_row_def example_dropped_column derived_row_def
      dates_row_def cell_lookups)

lemma example_counts:
  "site_count [cleaned site_a, cleaned site_b, cleaned site_c, cleaned site_f, cleaned site_g]
     (cleaned site_a) = 2"
  "site_count [cleaned site_a, cleaned site_b, cleaned site_c, cleaned site_f, cleaned site_g]
     (cleaned site_b) = 1"
  "site_count [cleaned site_a, cleaned site_b, cleaned site_c, cleaned site_f, cleaned site_g]
     (cleaned site_f) = 1"
  "site_count [cleaned site_a, cleaned site_b, cleaned site_c, cleaned site_f, cleaned site_g]
     (cleaned site_g) = 1"
  by (simp_all add: site_count_def example_keys)

lemma example_cells:
  "map (cell_at (projected (cleaned site_b))) final_columns =
     [Str ''P1'', Str ''In-Service'', Str ''REHAB'', Num 0, Str ''SENIORS'', Str ''No'',
      Str ''2011-12-01'', Num 1000000, Num 2500000, Num 0, Num 500000, Num 3, Num 1,
      Timestamp 2011 1 1, PosInf]"
  "map (cell_at (projected (cleaned site_a))) final_columns =
     [Str ''P2'', Str ''In-Service'', Str ''NEW CONSTRUCTION'', Num 40, Str ''FAMILY'', Str ''No'',
      Str ''2010-03-15'', Num 1000000, Num 2500000, Num 0, Num 1234500, Num 12, Num 2,
      Timestamp 2010 1 1, Num (61725 / 2)]"
  "map (cell_at (projected (cleaned site_f))) final_columns =
     [Str ''P5'', Str ''In-Service'', Str ''REHAB'', Num 5, Str ''FAMILY'', Str ''No'',
      Str ''NaT'', Num 1000000, Num 2500000, Num 0, NaN, NaN, Num 1, NaT, NaN]"
  "map (cell_at (projected (cleaned site_g))) final_columns =
     [Str ''P6'', Str ''In-Service'', Str ''REHAB'', Num 20, Str ''FAMILY'', Str ''No'',
      Str ''2015-07-04'', Num 1000000, Num 2500000, Num 0, Num 2000000, NaN, Num 1,
      Timestamp 2015 1 1, Num 100000]"
  by (simp_all add: final_columns_def projected_cell site_columns_def example_counts)
     (simp_all add: cleaned_cell site_cells example_values cost_quotient_def)

lemma complete_cells: "complete cs r = list_all (\<lambda>v. \<not> is_na v) (map (cell_at r) cs)"
  by (simp add: complete_def list_all_iff)

lemma example_complete:
  "complete final_columns (projected (cleaned site_b))"
  "complete final_columns (projected (cleaned site_a))"
  "\<not> complete final_columns (projected (cleaned site_f))"
  "\<not> complete final_columns (projected (cleaned site_g))"
  by (simp_all add: complete_cells example_cells)

lemma without_jobs_columns: "filter (\<lambda>c. c \<noteq> ''JOBS'') final_columns =
     [''PROJECT NUMBER'', ''DEVELOPMENT STAGE'', ''CONSTRUCTION TYPE'', ''PROJECT TOTAL UNITS'',
      ''HOUSING TYPE'', ''SUPPORTIVE HOUSING'', ''DATE FUNDED'', ''LAHD FUNDED'', ''LEVERAGE'',
      ''TAX EXEMPT CONDUIT BOND'', ''TOTAL DEVELOPMENT COST'', ''NUMBER OF SITES'',
      ''YEAR FUNDED'', ''COST PER HOUSING UNIT'']"
  by code_simp

lemma example_cells_without_jobs:
  "map (cell_at (drop_cells [''JOBS''] r)) (filter (\<lambda>c. c \<noteq> ''JOBS'') final_columns)
     = map (cell_at r) (filter (\<lambda>c. c \<noteq> ''JOBS'') final_columns)"
  by (simp add: cell_at_drop_cells)

lemma example_complete_without_jobs:
  "complete (filter (\<lambda>c. c \<noteq> ''JOBS'') final_columns)
     (drop_cells [''JOBS''] (projected (cleaned site_b)))"
  "complete (filter (\<lambda>c. c \<noteq> ''JOBS'') final_columns)
     (drop_cells [''JOBS''] (projected (cleaned site_a)))"
  "\<not> complete (filter (\<lambda>c. c \<noteq> ''JOBS'') final_columns)
     (drop_cells [''JOBS''] (projected (cleaned site_f)))"
  "complete (filter (\<lambda>c. c \<noteq> ''JOBS'') final_columns)
     (drop_cells [''JOBS''] (projected (cleaned site_g)))"
  using example_cells
  by (simp_all add: complete_cells example_cells_without_jobs)
     (simp_all add: final_columns_def)

lemma example_pipeline: "pipeline example = Inr example_tables"
proof -
  have stamp: "projr (date_stamp_of example) = ''04/01/2024''"
    by (simp add: example_date_stamp)
  have full: "dropna (project_table (site_table example)) = lahd_projects example_tables"
    by (simp add: example_project_table dropna_def example_complete example_tables_def)
  have part: "dropna (without_jobs (project_table (site_table example)))
                = lahd_projects_no_jobs_column example_tables"
    by (simp add: example_project_table without_jobs_def dropna_def
        example_complete_without_jobs example_tables_def)
  show ?thesis
    unfolding pipeline_eq_Inr stamp full part
    by (simp add: example_runs example_site_table example_tables_def)
qed

section \<open>What a stage leaves unchanged\<close>

lemma pipeline_tables:
  assumes "pipeline df = Inr out"
  shows "runs df"
    and "lahd out = site_table df"
    and "lahd_projects out = dropna (project_table (site_table df))"
    and "lahd_projects_no_jobs_column out = dropna (without_jobs (project_table (site_table df)))"
  using assms by (simp_all add: pipeline_eq_Inr)

lemma renamed_apply:
  "c \<notin> set [''TDC'', ''TOTAL DEVELOPMENT COST'', ''SITE #'', ''SITE NUMBER''] \<Longrightarrow>
     renamed cs r c = r c"
  by (simp add: renamed_def rename_row_apply Let_def)

lemma clean_row_apply:
  "c \<notin> set [''TDC'', ''TOTAL DEVELOPMENT COST'', ''SITE #'', ''SITE NUMBER'', ''DATE FUNDED'',
             ''JOBS'', ''LAHD FUNDED'', ''LEVERAGE'', ''TAX EXEMPT CONDUIT BOND''] \<Longrightarrow>
     clean_row cs r c = r c"
  by (simp add: clean_row_def update_row_apply numeric_columns_def renamed_apply)

lemma derived_row_apply:
  "derived_row rs r c =
     (if c = ''COST PER HOUSING UNIT''
        then Some (cost_quotient (cell_at r ''TOTAL DEVELOPMENT COST'')
                     (cell_at r ''PROJECT TOTAL UNITS''))
      else if c = ''YEAR FUNDED''
        then Some (to_datetime_Y (slice 4 (Str (astype_str (cell_at r ''DATE FUNDED'')))))
      else if c = ''DATE FUNDED''
        then Some (slice 10 (Str (astype_str (cell_at r ''DATE FUNDED''))))
      else if c = ''NUMBER OF SITES'' then Some (Num (of_nat (site_count rs r)))
      else r c)"
  by (simp add: derived_row_def dates_row_def set_cell_apply cell_at_set_cell)

lemma project_row_apply:
  "project_row cs rs r c =
     (if c = pruned_columns cs ! 3 \<or> c \<in> set site_columns then None else derived_row rs r c)"
  by (simp add: project_row_def drop_cells_apply)

lemma project_columns_iff:
  "c \<in> set (project_columns cs) \<longleftrightarrow>
     c \<in> set (derived_columns cs) \<and> c \<notin> set site_columns \<and> c \<noteq> pruned_columns cs ! 3"
  by (auto simp: project_columns_def pruned_columns_def)

lemma project_row_kept:
  "c \<in> set (project_columns cs) \<Longrightarrow> project_row cs rs r c = derived_row rs r c"
  by (simp add: project_row_apply project_columns_iff)

lemma cell_at_cong: "r c = q c \<Longrightarrow> cell_at r c = cell_at q c"
  by (simp add: cell_at_def)

lemma rows_dropna: "rows (dropna df) = filter (complete (columns df)) (rows df)"
  by (simp add: dropna_def)

lemma columns_dropna: "columns (dropna df) = columns df"
  by (simp add: dropna_def)

lemma rows_project_table:
  "rows (project_table df)
     = map (project_row (columns df) (rows df)) (sort_values (drop_duplicates [] (rows df)))"
  by (simp add: project_table_def)

lemma columns_project_table: "columns (project_table df) = project_columns (columns df)"
  by (simp add: project_table_def)

lemma rows_site_table:
  "rows (site_table df) = map (clean_row (columns df)) (filter keep_row (rows df))"
  by (simp add: site_table_def)

lemma rows_without_jobs: "rows (without_jobs df) = map (drop_cells [''JOBS'']) (rows df)"
  by (simp add: without_jobs_def)

lemma columns_without_jobs:
  "columns (without_jobs df) = filter (\<lambda>c. c \<noteq> ''JOBS'') (columns df)"
  by (simp add: without_jobs_def)

text \<open>
  Every row of the project table comes from a row of the site table, the first of its
  project.
\<close>

lemma project_table_rowE:
  assumes "r \<in> set (rows (project_table df))"
  obtains q where "q \<in> set (drop_duplicates [] (rows df))"
    and "r = project_row (columns df) (rows df) q"
  using assms by (auto simp: rows_project_table sort_values_def)

lemma site_table_rowE:
  assumes "q \<in> set (rows (site_table df))"
  obtains p where "p \<in> set (rows df)" and "keep_row p" and "q = clean_row (columns df) p"
  using assms by (auto simp: rows_site_table)

lemma kept_types:
  assumes "keep_row p"
  shows "clean_row cs p ''CONSTRUCTION TYPE'' \<noteq> Some (Str ''ACQUISITION ONLY'')"
    and "clean_row cs p ''HOUSING TYPE'' \<noteq> Some (Str ''AT-RISK'')"
  using assms by (auto simp: clean_row_apply keep_row_def cell_at_def)

lemma projected_types:
  assumes "q ''CONSTRUCTION TYPE'' \<noteq> Some (Str ''ACQUISITION ONLY'')"
    and "q ''HOUSING TYPE'' \<noteq> Some (Str ''AT-RISK'')"
  shows "project_row cs rs q ''CONSTRUCTION TYPE'' \<noteq> Some (Str ''ACQUISITION ONLY'')"
    and "project_row cs rs q ''HOUSING TYPE'' \<noteq> Some (Str ''AT-RISK'')"
  using assms by (simp_all add: project_row_apply derived_row_apply)

section \<open>The claims\<close>

text \<open>
  Claim C4. In a run that raises nothing, no row of the site table, of the project table
  or of the project table without the jobs column has the construction type
  \<^verbatim>\<open>ACQUISITION ONLY\<close> or the housing type \<^verbatim>\<open>AT-RISK\<close>; and the filter of lines 17 and 18
  keeps every row that matches neither exclusion: the site table consists of these rows,
  retyped, in their order.
\<close>

theorem excluded_rows_absent:
  assumes "pipeline df = Inr out"
  shows "(\<forall>t \<in> set [lahd out, lahd_projects out, lahd_projects_no_jobs_column out].
            \<forall>r \<in> set (rows t).
              r ''CONSTRUCTION TYPE'' \<noteq> Some (Str ''ACQUISITION ONLY'')
              \<and> r ''HOUSING TYPE'' \<noteq> Some (Str ''AT-RISK''))
         \<and> row_filter df = Inr (df\<lparr>rows := filter keep_row (rows df)\<rparr>)
         \<and> rows (lahd out) = map (clean_row (columns df)) (filter keep_row (rows df))"
proof -
  note t = pipeline_tables [OF assms]
  have sites: "r ''CONSTRUCTION TYPE'' \<noteq> Some (Str ''ACQUISITION ONLY'')
               \<and> r ''HOUSING TYPE'' \<noteq> Some (Str ''AT-RISK'')"
    if "r \<in> set (rows (site_table df))" for r
    using that by (auto elim!: site_table_rowE dest: kept_types)
  have projects: "r ''CONSTRUCTION TYPE'' \<noteq> Some (Str ''ACQUISITION ONLY'')
                  \<and> r ''HOUSING TYPE'' \<noteq> Some (Str ''AT-RISK'')"
    if "r \<in> set (rows (project_table (site_table df)))" for r
  proof -
    from that obtain q where q: "q \<in> set (drop_duplicates [] (rows (site_table df)))"
      and r: "r = project_row (columns (site_table df)) (rows (site_table df)) q"
      by (rule project_table_rowE)
    from q have "q \<in> set (rows (site_table df))"
      using drop_duplicates_subset by blast
    from sites [OF this] show ?thesis
      unfolding r using projected_types by blast
  qed
  have part: "r ''CONSTRUCTION TYPE'' \<noteq> Some (Str ''ACQUISITION ONLY'')
              \<and> r ''HOUSING TYPE'' \<noteq> Some (Str ''AT-RISK'')"
    if "r \<in> set (rows (without_jobs (project_table (site_table df))))" for r
    using that projects by (auto simp: rows_without_jobs drop_cells_apply)
  have filt: "row_filter df = Inr (df\<lparr>rows := filter keep_row (rows df)\<rparr>)"
    using t(1) by (simp add: row_filter_eq_Inr runs_def clean_schema_def)
  show ?thesis
    using sites projects part filt
    by (simp add: t(2,3,4) rows_dropna rows_site_table [symmetric])
qed

theorem excluded_rows_absent_witness:
  "pipeline example = Inr example_tables
   \<and> length (rows example) = 7
   \<and> rows (lahd example_tables) = map cleaned [site_a, site_b, site_c, site_f, site_g]
   \<and> cleaned site_a ''CONSTRUCTION TYPE'' \<noteq> Some (Str ''ACQUISITION ONLY'')
   \<and> cleaned site_a ''HOUSING TYPE'' \<noteq> Some (Str ''AT-RISK'')
   \<and> projected (cleaned site_b) \<in> set (rows (lahd_projects example_tables))
   \<and> projected (cleaned site_b) ''CONSTRUCTION TYPE'' \<noteq> Some (Str ''ACQUISITION ONLY'')
   \<and> projected (cleaned site_b) ''HOUSING TYPE'' \<noteq> Some (Str ''AT-RISK'')
   \<and> drop_cells [''JOBS''] (projected (cleaned site_g))
         \<in> set (rows (lahd_projects_no_jobs_column example_tables))
   \<and> drop_cells [''JOBS''] (projected (cleaned site_g)) ''CONSTRUCTION TYPE''
         \<noteq> Some (Str ''ACQUISITION ONLY'')
   \<and> drop_cells [''JOBS''] (projected (cleaned site_g)) ''HOUSING TYPE''
         \<noteq> Some (Str ''AT-RISK'')"
  using excluded_rows_absent [OF example_pipeline]
  by (simp add: example_pipeline) (simp add: example_def example_tables_def)

end
